theory Spec2Isabelle
  imports Complex_Main "HOL-Library.AList" "HOL-Library.Multiset"
begin

section \<open>The training harness of \<open>train/torch/iteration.py\<close>\<close>

text \<open>
  The module sequences calls to a model, an optimizer, a loss function and data loaders
  and accumulates scalars. The objects it is handed are modelled as follows.
  \<^item> Python exceptions are values of \<open>error\<close>; a function that can raise returns the
    state it leaves behind together with \<open>error + result\<close>.
  \<^item> Python floats are idealised as \<open>real\<close> (no rounding, no NaN); the default best loss
    \<open>float("inf")\<close> is the extra value \<open>PosInf\<close> of \<open>pyfloat\<close>.
  \<^item> A \<open>dict\<close> with string keys is an association list read with \<open>map_of\<close> and
    written with \<open>AList.update\<close> (which keeps the insertion order, as Python does).
  \<^item> Log lines are not modelled: \<open>logger.info\<close> has no effect any function here reads.
\<close>

datatype error = TypeError | KeyError | IndexError | ZeroDivisionError | ValueError | AttributeError

datatype pyfloat = Finite real | PosInf

type_synonym history = "(string \<times> real list) list"

subsection \<open>Collaborators\<close>

text \<open>
  The model, the optimizer, the loss function and the tensors are supplied by the caller.
  \<open>'m\<close> is everything the model object holds (parameters, their gradients, buffers, the
  train/eval flag), \<open>'o\<close> the optimizer's own state (what \<open>optimizer.state_dict()\<close> shows),
  \<open>'t\<close> a tensor. \<open>optimizer.zero_grad()\<close> clears the \<open>.grad\<close> of the parameters, which
  live in the model; \<open>optimizer.step()\<close> reads the gradients and updates parameters and
  optimizer state. The collaborators are deterministic and do not raise.
\<close>

record ('m, 'o, 't) collab =
  to_device :: "'t \<Rightarrow> 't"
  model_train :: "'m \<Rightarrow> 'm"
  model_eval :: "'m \<Rightarrow> 'm"
  zero_grad :: "'m \<Rightarrow> 'm"
  model_call :: "bool \<Rightarrow> 'm \<Rightarrow> 't list \<Rightarrow> 't \<times> 'm"
  loss_call :: "'t \<Rightarrow> 't \<Rightarrow> 't"
  backward :: "'t \<Rightarrow> 'm \<Rightarrow> 'm"
  opt_step :: "'m \<Rightarrow> 'o \<Rightarrow> 'm \<times> 'o"
  item :: "'t \<Rightarrow> real"
  size0 :: "'t \<Rightarrow> nat"

text \<open>
  A data feed is what \<open>for batch in feed\<close> yields, a list of batches (each a list of
  tensors), and what \<open>len(feed)\<close> answers. For a \<open>torch.utils.data.DataLoader\<close>, the type
  the functions declare and the one \<open>cross_validate\<close> builds, \<open>len\<close> is the number of
  batches.
\<close>

record 't feed =
  batches :: "'t list list"
  feed_len :: nat

definition DataLoader :: "'t list list \<Rightarrow> 't feed" where
  "DataLoader bs = \<lparr>batches = bs, feed_len = length bs\<rparr>"

subsection \<open>\<open>train_single_fold\<close>\<close>

text \<open>
  The body of \<open>for batch in dloader[dataset]\<close> (lines 186-205), as a recursion over the
  batches that are left. \<open>is_train\<close> is \<open>dataset == "train"\<close>; \<open>loss_epoch\<close> is the running
  sum.
\<close>

fun run_batches ::
  "('m, 'o, 't) collab \<Rightarrow> bool \<Rightarrow> 't list list \<Rightarrow> 'm \<times> 'o \<Rightarrow> real
    \<Rightarrow> ('m \<times> 'o) \<times> (error + real)" where
  "run_batches c is_train [] s loss_epoch = (s, Inr loss_epoch)"
| "run_batches c is_train (b # bs) s loss_epoch =
    (let m1 = zero_grad c (fst s);
         batch = map (to_device c) b
     in if batch = [] then ((m1, snd s), Inl IndexError)
        else
          let targets = last batch;
              r = model_call c is_train m1 (butlast batch);
              current_loss = loss_call c (fst r) targets;
              s3 = (if is_train then opt_step c (backward c current_loss (snd r)) (snd s)
                    else (snd r, snd s))
          in run_batches c is_train bs s3
               (loss_epoch + item c current_loss * real (size0 c (hd batch))))"

text \<open>One iteration of \<open>for dataset in ["train", "val"]\<close> (lines 175-209).\<close>

definition run_phase ::
  "('m, 'o, 't) collab \<Rightarrow> (string \<times> 't feed) list \<Rightarrow> string \<Rightarrow> 'm \<times> 'o
    \<Rightarrow> ('m \<times> 'o) \<times> (error + real)" where
  "run_phase c dloader dataset s =
    (let is_train = (dataset = ''train'');
         s0 = ((if is_train then model_train c (fst s) else model_eval c (fst s)), snd s)
     in case map_of dloader dataset of
          None \<Rightarrow> (s0, Inl KeyError)
        | Some f \<Rightarrow>
            (case run_batches c is_train (batches f) s0 0 of
               (s1, Inl e) \<Rightarrow> (s1, Inl e)
             | (s1, Inr loss_epoch) \<Rightarrow>
                 if feed_len f = 0 then (s1, Inl ZeroDivisionError)
                 else (s1, Inr (loss_epoch / real (feed_len f)))))"

fun run_phases ::
  "('m, 'o, 't) collab \<Rightarrow> (string \<times> 't feed) list \<Rightarrow> string list \<Rightarrow> 'm \<times> 'o
    \<Rightarrow> real list \<Rightarrow> ('m \<times> 'o) \<times> (error + real list)" where
  "run_phases c dloader [] s loss = (s, Inr loss)"
| "run_phases c dloader (dataset # rest) s loss =
    (case run_phase c dloader dataset s of
       (s1, Inl e) \<Rightarrow> (s1, Inl e)
     | (s1, Inr l) \<Rightarrow> run_phases c dloader rest s1 (loss @ [l]))"

definition train_single_fold ::
  "('m, 'o, 't) collab \<Rightarrow> (string \<times> 't feed) list \<Rightarrow> 'm \<times> 'o
    \<Rightarrow> ('m \<times> 'o) \<times> (error + real list)" where
  "train_single_fold c dloader s = run_phases c dloader [''train'', ''val''] s []"

text \<open>
  The stub of the specification's example: a tensor is a pair of a value and its number
  of rows, the model returns its first input, the loss function returns the model's
  output, so that a batch \<open>[(l, n), (0, n)]\<close> has \<open>n\<close> examples and loss \<open>l\<close>. The model
  state and the optimizer state both count the optimizer steps.
\<close>

definition stub :: "(nat, nat, real \<times> nat) collab" where
  "stub = \<lparr>to_device = (\<lambda>t. t), model_train = (\<lambda>m. m), model_eval = (\<lambda>m. m),
     zero_grad = (\<lambda>m. m), model_call = (\<lambda>g m xs. (hd xs, m)),
     loss_call = (\<lambda>out tgt. out), backward = (\<lambda>l m. m),
     opt_step = (\<lambda>m k. (Suc m, Suc k)), item = fst, size0 = snd\<rparr>"

definition stub_feed :: "(real \<times> nat) feed" where
  "stub_feed = DataLoader [[(2, 4), (0, 4)], [(3, 6), (0, 6)]]"

subsection \<open>Python values, indexing and calls\<close>

text \<open>
  The objects \<open>save_checkpoints\<close> is handed or stores. \<open>PyModel\<close>, \<open>PyOptim\<close> and \<open>PyLogger\<close>
  are references to the model, the optimizer and the logger; \<open>StateDictM\<close> and
  \<open>StateDictO\<close> are the snapshots \<open>state_dict()\<close> returns.
\<close>

datatype ('m, 'o) pyval =
    PyModel | PyOptim | PyLogger
  | PyStr string | PyDict history | PyInt int | PyFloat pyfloat
  | StateDictM 'm | StateDictO 'o

text \<open>\<open>xs[i]\<close>: a negative index counts from the end, an index out of range raises.\<close>

definition py_index :: "'a list \<Rightarrow> int \<Rightarrow> error + 'a" where
  "py_index xs i =
    (let n = int (length xs); j = (if i < 0 then i + n else i)
     in if 0 \<le> j \<and> j < n then Inr (xs ! nat j) else Inl IndexError)"

text \<open>\<open>range(a, b)\<close>.\<close>

definition py_range :: "int \<Rightarrow> int \<Rightarrow> int list" where
  "py_range a b = [a..b - 1]"

text \<open>\<open>d[k].append(x)\<close> on a dictionary of lists.\<close>

definition dict_append :: "string \<Rightarrow> real \<Rightarrow> history \<Rightarrow> error + history" where
  "dict_append k x d =
    (case map_of d k of
       None \<Rightarrow> Inl KeyError
     | Some xs \<Rightarrow> Inr (AList.update k (xs @ [x]) d))"

text \<open>
  How Python binds the arguments of a call \<open>f(*pos, **kw)\<close> to the parameters \<open>params\<close>
  of a \<open>def\<close> without \<open>*args\<close> or \<open>**kwargs\<close>: positional arguments fill the parameters
  from the left; a keyword that names no parameter, or one already filled, is a
  \<open>TypeError\<close>, and so is a parameter left without a value and without a default.
\<close>

definition bind_args ::
  "string list \<Rightarrow> (string \<times> 'a) list \<Rightarrow> 'a list \<Rightarrow> (string \<times> 'a) list
    \<Rightarrow> error + (string \<times> 'a) list" where
  "bind_args params defaults pos kw =
    (if length params < length pos then Inl TypeError
     else
       let bound = zip params pos
       in if list_ex (\<lambda>k. k \<notin> set params) (map fst kw) then Inl TypeError
          else if list_ex (\<lambda>k. k \<in> set (map fst bound)) (map fst kw) then Inl TypeError
          else
            let given = bound @ kw;
                full = given @ filter (\<lambda>d. fst d \<notin> set (map fst given)) defaults
            in if list_ex (\<lambda>p. p \<notin> set (map fst full)) params then Inl TypeError
               else Inr full)"

text \<open>\<open>os.path.join\<close> of two components (POSIX).\<close>

definition path_join :: "string \<Rightarrow> string \<Rightarrow> string" where
  "path_join a b =
    (if b \<noteq> [] \<and> hd b = CHR ''/'' then b
     else if a = [] \<or> last a = CHR ''/'' then a @ b
     else a @ ''/'' @ b)"

subsection \<open>The state of the program\<close>

text \<open>
  What the functions read and change: the model and the optimizer, the files written by
  \<open>torch.save\<close> (path to record), the two dictionaries created when the \<open>def\<close>
  statements of \<open>train_model\<close> and \<open>cross_validate\<close> ran and kept as the default value of
  their \<open>loss\<close> parameter, and NumPy's global random generator.
\<close>

record ('m, 'o, 'r) world =
  model :: 'm
  optim :: 'o
  files :: "(string \<times> (string \<times> ('m, 'o) pyval) list) list"
  train_model_loss :: history
  cross_validate_loss :: history
  np_random :: 'r

text \<open>The state right after the module is imported, for a given model and optimizer.\<close>

definition initial_world :: "'m \<Rightarrow> 'o \<Rightarrow> 'r \<Rightarrow> ('m, 'o, 'r) world" where
  "initial_world m k g =
    \<lparr>model = m, optim = k, files = [],
     train_model_loss = [(''train'', []), (''val'', [])],
     cross_validate_loss = [(''mean'', []), (''std'', [])],
     np_random = g\<rparr>"

subsection \<open>\<open>save_checkpoints\<close>\<close>

definition save_checkpoints_params :: "string list" where
  "save_checkpoints_params =
    [''training_model'', ''optimizer'', ''logger'', ''root_path'', ''model_name'', ''loss'',
     ''e'', ''best_loss'', ''suffix'']"

fun as_str :: "('m, 'o) pyval \<Rightarrow> string option" where
  "as_str (PyStr s) = Some s"
| "as_str _ = None"

text \<open>
  The body, lines 134-147, once the parameters are bound (\<open>a\<close> gives each parameter its
  value). The three path components are strings at every call of this module; another
  value is answered with \<open>TypeError\<close>. \<open>state_dict\<close> needs the model and the optimizer,
  \<open>logger.info\<close> the logger (\<open>AttributeError\<close> otherwise).
\<close>

definition save_checkpoints_body ::
  "(string \<Rightarrow> ('m, 'o) pyval) \<Rightarrow> ('m, 'o, 'r) world \<Rightarrow> ('m, 'o, 'r) world \<times> (error + unit)" where
  "save_checkpoints_body a w =
    (case (as_str (a ''root_path''), as_str (a ''model_name''), as_str (a ''suffix'')) of
       (Some root_path, Some model_name, Some suffix) \<Rightarrow>
         let save_path = path_join root_path (model_name @ ''_'' @ suffix @ ''.ckpt'')
         in if a ''training_model'' = PyModel \<and> a ''optimizer'' = PyOptim then
              let w1 = w\<lparr>files := AList.update save_path
                         [(''epoch'', a ''e''),
                          (''model_state_dict'', StateDictM (model w)),
                          (''optimizer_state_dict'', StateDictO (optim w)),
                          (''loss'', a ''loss''),
                          (''best_loss'', a ''best_loss'')] (files w)\<rparr>
              in if a ''logger'' = PyLogger then (w1, Inr ()) else (w1, Inl AttributeError)
            else (w, Inl AttributeError)
     | _ \<Rightarrow> (w, Inl TypeError))"

text \<open>A call \<open>save_checkpoints(*pos, **kw)\<close>.\<close>

definition save_checkpoints ::
  "('m, 'o) pyval list \<Rightarrow> (string \<times> ('m, 'o) pyval) list \<Rightarrow> ('m, 'o, 'r) world
    \<Rightarrow> ('m, 'o, 'r) world \<times> (error + unit)" where
  "save_checkpoints pos kw w =
    (case bind_args save_checkpoints_params [(''suffix'', PyStr ''latest'')] pos kw of
       Inl err \<Rightarrow> (w, Inl err)
     | Inr args \<Rightarrow> save_checkpoints_body (\<lambda>p. the (map_of args p)) w)"

subsection \<open>The loop over the epochs\<close>

text \<open>
  \<open>for e in range(...)\<close>, shared by both controllers: the body runs on each epoch in
  turn and an exception ends the loop, leaving the state it reached.
\<close>

fun for_epochs ::
  "(int \<Rightarrow> 'st \<Rightarrow> 'st \<times> (error + unit)) \<Rightarrow> int list \<Rightarrow> 'st \<Rightarrow> 'st \<times> (error + unit)" where
  "for_epochs body [] st = (st, Inr ())"
| "for_epochs body (e # es) st =
    (case body e st of
       (st1, Inl err) \<Rightarrow> (st1, Inl err)
     | (st1, Inr u) \<Rightarrow> for_epochs body es st1)"

text \<open>\<open>x < best\<close> for a loss \<open>x\<close> and a best loss that may still be \<open>float("inf")\<close>.\<close>

fun less_best :: "real \<Rightarrow> pyfloat \<Rightarrow> bool" where
  "less_best x (Finite b) = (x < b)"
| "less_best x PosInf = True"

subsection \<open>\<open>train_model\<close>\<close>

text \<open>\<open>loss[k].append(floss[i])\<close> (lines 75-76): the list is looked up before the item.\<close>

definition append_item :: "string \<Rightarrow> real list \<Rightarrow> int \<Rightarrow> history \<Rightarrow> error + history" where
  "append_item k floss i d =
    (case map_of d k of
       None \<Rightarrow> Inl KeyError
     | Some xs \<Rightarrow>
         (case py_index floss i of
            Inl err \<Rightarrow> Inl err
          | Inr x \<Rightarrow> Inr (AList.update k (xs @ [x]) d)))"

text \<open>\<open>loss[k][-1]\<close>.\<close>

definition last_item :: "string \<Rightarrow> history \<Rightarrow> error + real" where
  "last_item k d = (case map_of d k of None \<Rightarrow> Inl KeyError | Some xs \<Rightarrow> py_index xs (- 1))"

text \<open>
  Lines 77-99: the two calls of \<open>save_checkpoints\<close>, with the arguments as the source
  passes them: five positional ones, then keywords.
\<close>

definition train_model_checkpoints ::
  "string \<Rightarrow> string \<Rightarrow> int \<Rightarrow> ('m, 'o, 'r) world \<times> history \<times> pyfloat
    \<Rightarrow> (('m, 'o, 'r) world \<times> history \<times> pyfloat) \<times> (error + unit)" where
  "train_model_checkpoints root_path model_name e st =
    (let w = fst st; loss = fst (snd st); best_val_loss = snd (snd st)
     in case last_item ''val'' loss of
          Inl err \<Rightarrow> (st, Inl err)
        | Inr v \<Rightarrow>
            let r = (if less_best v best_val_loss then
                       (case save_checkpoints
                               [PyModel, PyOptim, PyStr root_path, PyStr model_name, PyDict loss]
                               [(''e'', PyInt e), (''suffix'', PyStr ''best''),
                                (''best_loss'', PyFloat (Finite v)), (''logger'', PyLogger)] w of
                          (w1, res) \<Rightarrow> ((w1, loss, Finite v), res))
                     else (st, Inr ()))
            in case r of
                 (st1, Inl err) \<Rightarrow> (st1, Inl err)
               | (st1, Inr u) \<Rightarrow>
                   (case save_checkpoints
                           [PyModel, PyOptim, PyStr root_path, PyStr model_name, PyDict loss]
                           [(''e'', PyInt e), (''best_loss'', PyFloat (snd (snd st1))),
                            (''logger'', PyLogger)] (fst st1) of
                      (w2, res) \<Rightarrow> ((w2, loss, snd (snd st1)), res)))"

text \<open>The body of the loop, lines 65-102.\<close>

definition train_model_epoch ::
  "('m, 'o, 't) collab \<Rightarrow> (string \<times> 't feed) list \<Rightarrow> string \<Rightarrow> string \<Rightarrow> int
    \<Rightarrow> ('m, 'o, 'r) world \<times> history \<times> pyfloat
    \<Rightarrow> (('m, 'o, 'r) world \<times> history \<times> pyfloat) \<times> (error + unit)" where
  "train_model_epoch c dloader root_path model_name e st =
    (let w = fst st; loss = fst (snd st); best_val_loss = snd (snd st)
     in case train_single_fold c dloader (model w, optim w) of
          (s1, Inl err) \<Rightarrow> ((w\<lparr>model := fst s1, optim := snd s1\<rparr>, loss, best_val_loss), Inl err)
        | (s1, Inr floss) \<Rightarrow>
            let w1 = w\<lparr>model := fst s1, optim := snd s1\<rparr>
            in (case append_item ''train'' floss 0 loss of
                  Inl err \<Rightarrow> ((w1, loss, best_val_loss), Inl err)
                | Inr loss1 \<Rightarrow>
                    (case append_item ''val'' floss 1 loss1 of
                       Inl err \<Rightarrow> ((w1, loss1, best_val_loss), Inl err)
                     | Inr loss2 \<Rightarrow>
                         train_model_checkpoints root_path model_name e
                           (w1, loss2, best_val_loss))))"

text \<open>
  \<open>train_model\<close>. \<open>class_name\<close> is \<open>type(training_model).__name__\<close>. \<open>loss\<close> is \<open>None\<close> when
  the caller passes no \<open>loss\<close>: the function then works on the dictionary kept as the
  parameter's default, and what it appends stays in that dictionary. It returns the
  state, the dictionary it worked on, and whether it raised.
\<close>

definition train_model ::
  "('m, 'o, 't) collab \<Rightarrow> string \<Rightarrow> (string \<times> 't feed) list \<Rightarrow> string \<Rightarrow> string option
    \<Rightarrow> int \<Rightarrow> int \<Rightarrow> history option \<Rightarrow> pyfloat \<Rightarrow> ('m, 'o, 'r) world
    \<Rightarrow> ('m, 'o, 'r) world \<times> history \<times> (error + unit)" where
  "train_model c class_name dloader root_path model_name epoches start_epoch loss
      best_val_loss w =
    (let name = (case model_name of None \<Rightarrow> class_name | Some n \<Rightarrow> n);
         loss0 = (case loss of None \<Rightarrow> train_model_loss w | Some d \<Rightarrow> d);
         r = for_epochs (train_model_epoch c dloader root_path name)
               (py_range start_epoch (start_epoch + epoches)) (w, loss0, best_val_loss);
         w1 = fst (fst r);
         loss1 = fst (snd (fst r))
     in ((case loss of None \<Rightarrow> w1\<lparr>train_model_loss := loss1\<rparr> | Some d \<Rightarrow> w1),
         loss1, snd r))"

subsection \<open>The split into folds\<close>

text \<open>
  \<open>sklearn.model_selection.KFold\<close> is not part of this module. It is modelled after its
  documented algorithm: the indices \<open>0..n-1\<close> are shuffled, cut into \<open>n_splits\<close>
  consecutive chunks whose sizes differ by at most one (the first \<open>n mod n_splits\<close> are
  the larger ones), and each chunk is the validation set of one fold, the other indices
  its training set, both in increasing order. The shuffle itself (NumPy's generator) is a
  parameter: \<open>RandomState seed\<close> is a new generator, \<open>rs_shuffle\<close> permutes a list and
  advances the generator. With \<open>random_state=None\<close> the global generator is used and
  advanced; with an integer seed a new generator is made at each split.
\<close>

record 'r numpy =
  RandomState :: "int \<Rightarrow> 'r"
  rs_shuffle :: "'r \<Rightarrow> nat list \<Rightarrow> nat list \<times> 'r"

definition fold_sizes :: "nat \<Rightarrow> nat \<Rightarrow> nat list" where
  "fold_sizes n n_splits =
    map (\<lambda>i. n div n_splits + (if i < n mod n_splits then 1 else 0)) [0..<n_splits]"

fun test_chunks :: "nat list \<Rightarrow> nat list \<Rightarrow> nat list list" where
  "test_chunks [] indices = []"
| "test_chunks (fold_size # rest) indices =
    take fold_size indices # test_chunks rest (drop fold_size indices)"

definition KFold_split ::
  "'r numpy \<Rightarrow> int option \<Rightarrow> nat \<Rightarrow> nat \<Rightarrow> 'r \<Rightarrow> 'r \<times> (error + (nat list \<times> nat list) list)" where
  "KFold_split np random_state n_splits n g =
    (if n_splits \<le> 1 then (g, Inl ValueError)
     else if n < n_splits then (g, Inl ValueError)
     else
       let indices = [0..<n];
           sh = (case random_state of
                   None \<Rightarrow> rs_shuffle np g indices
                 | Some seed \<Rightarrow> (fst (rs_shuffle np (RandomState np seed) indices), g));
           tests = test_chunks (fold_sizes n n_splits) (fst sh)
       in (snd sh,
           Inr (map (\<lambda>t. (filter (\<lambda>i. i \<notin> set t) indices, filter (\<lambda>i. i \<in> set t) indices))
                  tests)))"

subsection \<open>\<open>cross_validate\<close>\<close>

text \<open>
  \<open>np.mean\<close> and \<open>np.std\<close> on a list of floats; \<open>np.std\<close> is
  \<open>sqrt(mean(abs(x - x.mean())**2))\<close>.
\<close>

definition np_mean :: "real list \<Rightarrow> real" where
  "np_mean xs = sum_list xs / real (length xs)"

definition np_std :: "real list \<Rightarrow> real" where
  "np_std xs = sqrt (np_mean (map (\<lambda>x. \<bar>x - np_mean xs\<bar> ^ 2) xs))"

text \<open>Lines 254 and 257: the folds of a dataset of \<open>dataset_len\<close> examples.\<close>

definition cross_validate_split ::
  "'r numpy \<Rightarrow> nat \<Rightarrow> nat \<Rightarrow> ('m, 'o, 'r) world
    \<Rightarrow> ('m, 'o, 'r) world \<times> (error + (nat list \<times> nat list) list)" where
  "cross_validate_split np n_splits dataset_len w =
    (case KFold_split np (Some 42) n_splits dataset_len (np_random w) of
       (g, res) \<Rightarrow> (w\<lparr>np_random := g\<rparr>, res))"

text \<open>
  Lines 278-291: the folds in increasing order, on the same model and optimizer.
  \<open>single_fold_func\<close> is the injected function (\<open>train_single_fold\<close> by default), \<open>'f\<close>
  the feed it reads.
\<close>

fun run_folds ::
  "((string \<times> 'f) list \<Rightarrow> 'm \<times> 'o \<Rightarrow> ('m \<times> 'o) \<times> (error + real list))
    \<Rightarrow> (string \<times> 'f) list list \<Rightarrow> 'm \<times> 'o \<Rightarrow> real list
    \<Rightarrow> ('m \<times> 'o) \<times> (error + real list)" where
  "run_folds single_fold_func [] s fold_loss = (s, Inr fold_loss)"
| "run_folds single_fold_func (d # ds) s fold_loss =
    (case single_fold_func d s of
       (s1, Inl err) \<Rightarrow> (s1, Inl err)
     | (s1, Inr floss) \<Rightarrow>
         (case py_index floss (- 1) of
            Inl err \<Rightarrow> (s1, Inl err)
          | Inr l \<Rightarrow> run_folds single_fold_func ds s1 (fold_loss @ [l])))"

text \<open>
  Lines 302-326: the two calls of \<open>save_checkpoints\<close>, every argument by keyword.
\<close>

definition cross_validate_checkpoints ::
  "string \<Rightarrow> string \<Rightarrow> int \<Rightarrow> real \<Rightarrow> ('m, 'o, 'r) world \<times> history \<times> pyfloat
    \<Rightarrow> (('m, 'o, 'r) world \<times> history \<times> pyfloat) \<times> (error + unit)" where
  "cross_validate_checkpoints root_path prefix e fold_loss_mean st =
    (let w = fst st; loss = fst (snd st); best_loss = snd (snd st);
         r = (if less_best fold_loss_mean best_loss then
                (case save_checkpoints []
                        [(''training_model'', PyModel), (''optimizer'', PyOptim),
                         (''model_name'', PyStr prefix), (''root_path'', PyStr root_path),
                         (''loss'', PyDict loss), (''e'', PyInt e), (''suffix'', PyStr ''best''),
                         (''best_loss'', PyFloat (Finite fold_loss_mean)),
                         (''logger'', PyLogger)] w of
                   (w1, res) \<Rightarrow> ((w1, loss, Finite fold_loss_mean), res))
              else (st, Inr ()))
     in case r of
          (st1, Inl err) \<Rightarrow> (st1, Inl err)
        | (st1, Inr u) \<Rightarrow>
            (case save_checkpoints []
                    [(''training_model'', PyModel), (''optimizer'', PyOptim),
                     (''model_name'', PyStr prefix), (''root_path'', PyStr root_path),
                     (''e'', PyInt e), (''loss'', PyDict loss),
                     (''best_loss'', PyFloat (snd (snd st1))), (''logger'', PyLogger)]
                    (fst st1) of
               (w2, res) \<Rightarrow> ((w2, loss, snd (snd st1)), res)))"

text \<open>The body of the loop over the epochs, lines 274-326.\<close>

definition cross_validate_epoch ::
  "((string \<times> 'f) list \<Rightarrow> 'm \<times> 'o \<Rightarrow> ('m \<times> 'o) \<times> (error + real list))
    \<Rightarrow> (string \<times> 'f) list list \<Rightarrow> string \<Rightarrow> string \<Rightarrow> int
    \<Rightarrow> ('m, 'o, 'r) world \<times> history \<times> pyfloat
    \<Rightarrow> (('m, 'o, 'r) world \<times> history \<times> pyfloat) \<times> (error + unit)" where
  "cross_validate_epoch single_fold_func dloader root_path prefix e st =
    (let w = fst st; loss = fst (snd st); best_loss = snd (snd st)
     in case run_folds single_fold_func dloader (model w, optim w) [] of
          (s1, Inl err) \<Rightarrow> ((w\<lparr>model := fst s1, optim := snd s1\<rparr>, loss, best_loss), Inl err)
        | (s1, Inr fold_loss) \<Rightarrow>
            let w1 = w\<lparr>model := fst s1, optim := snd s1\<rparr>;
                fold_loss_mean = np_mean fold_loss;
                fold_loss_std = np_std fold_loss
            in (case dict_append ''mean'' fold_loss_mean loss of
                  Inl err \<Rightarrow> ((w1, loss, best_loss), Inl err)
                | Inr loss1 \<Rightarrow>
                    (case dict_append ''std'' fold_loss_std loss1 of
                       Inl err \<Rightarrow> ((w1, loss1, best_loss), Inl err)
                     | Inr loss2 \<Rightarrow>
                         cross_validate_checkpoints root_path prefix e fold_loss_mean
                           (w1, loss2, best_loss))))"

text \<open>
  \<open>cross_validate\<close>. \<open>make_loader idx\<close> is
  \<open>DataLoader(dataset, batch_size=batch_size, sampler=SubsetRandomSampler(idx))\<close>;
  \<open>loss\<close> is \<open>None\<close> when the caller passes no \<open>loss\<close>, as in \<open>train_model\<close>.
\<close>

definition cross_validate ::
  "'r numpy \<Rightarrow> ((string \<times> 'f) list \<Rightarrow> 'm \<times> 'o \<Rightarrow> ('m \<times> 'o) \<times> (error + real list))
    \<Rightarrow> (nat list \<Rightarrow> 'f) \<Rightarrow> string \<Rightarrow> nat \<Rightarrow> nat \<Rightarrow> int \<Rightarrow> int \<Rightarrow> string \<Rightarrow> string option
    \<Rightarrow> history option \<Rightarrow> pyfloat \<Rightarrow> ('m, 'o, 'r) world
    \<Rightarrow> ('m, 'o, 'r) world \<times> history \<times> (error + unit)" where
  "cross_validate np single_fold_func make_loader class_name dataset_len n_splits epoches
      start_epoches root_path prefix loss best_loss w =
    (let name = (case prefix of None \<Rightarrow> class_name | Some p \<Rightarrow> p);
         loss0 = (case loss of None \<Rightarrow> cross_validate_loss w | Some d \<Rightarrow> d)
     in case cross_validate_split np n_splits dataset_len w of
          (w0, Inl err) \<Rightarrow> (w0, loss0, Inl err)
        | (w0, Inr folds) \<Rightarrow>
            let dloader = map (\<lambda>f. [(''train'', make_loader (fst f)),
                                     (''val'', make_loader (snd f))]) folds;
                r = for_epochs (cross_validate_epoch single_fold_func dloader root_path name)
                      (py_range start_epoches (start_epoches + epoches))
                      (w0, loss0, best_loss);
                w1 = fst (fst r);
                loss1 = fst (snd (fst r))
            in ((case loss of None \<Rightarrow> w1\<lparr>cross_validate_loss := loss1\<rparr> | Some d \<Rightarrow> w1),
                loss1, snd r))"

subsection \<open>The properties in the specification's words, and stubs\<close>

text \<open>The arithmetic mean and the population standard deviation of a list of numbers.\<close>

definition arithmetic_mean :: "real list \<Rightarrow> real" where
  "arithmetic_mean xs = (\<Sum>x\<leftarrow>xs. x) / real (length xs)"

definition population_std :: "real list \<Rightarrow> real" where
  "population_std xs =
    sqrt ((\<Sum>x\<leftarrow>xs. (x - arithmetic_mean xs) ^ 2) / real (length xs))"

text \<open>A shuffle returns a permutation of the list it is given.\<close>

definition permutes :: "'r numpy \<Rightarrow> bool" where
  "permutes np \<longleftrightarrow> (\<forall>r xs. mset (fst (rs_shuffle np r xs)) = mset xs)"

text \<open>
  Stubs: a feed of one batch of one example with loss \<open>l\<close>; a generator whose state is
  an integer and whose shuffle reverses the list; a substitute for \<open>train_single_fold\<close>
  that does one step and reports the validation loss \<open>5 - i\<close> on the fold whose first
  validation index is \<open>i\<close>; the state of a program that has just been started.
\<close>

definition unit_feed :: "real \<Rightarrow> (real \<times> nat) feed" where
  "unit_feed l = DataLoader [[(l, 1), (0, 1)]]"

definition stub_numpy :: "int numpy" where
  "stub_numpy = \<lparr>RandomState = (\<lambda>seed. seed), rs_shuffle = (\<lambda>r xs. (rev xs, r + 1))\<rparr>"

definition stub_fold_func ::
  "(string \<times> nat list) list \<Rightarrow> nat \<times> nat \<Rightarrow> (nat \<times> nat) \<times> (error + real list)" where
  "stub_fold_func d s =
    (case map_of d ''val'' of
       None \<Rightarrow> (s, Inl KeyError)
     | Some idx \<Rightarrow> ((Suc (fst s), Suc (snd s)), Inr [0, 5 - real (hd idx)]))"

definition stub_world :: "(nat, nat, int) world" where
  "stub_world = initial_world 0 0 7"

definition stub_kwargs :: "(string \<times> (nat, nat) pyval) list" where
  "stub_kwargs =
    [(''training_model'', PyModel), (''optimizer'', PyOptim), (''model_name'', PyStr ''Net''),
     (''root_path'', PyStr ''.''), (''e'', PyInt 0),
     (''loss'', PyDict [(''mean'', [3]), (''std'', [0])]),
     (''best_loss'', PyFloat (Finite 3)), (''logger'', PyLogger)]"

text \<open>
  The record a controller asks \<open>save_checkpoints\<close> to store for epoch \<open>e\<close>, history
  \<open>loss\<close> and best loss \<open>best_loss\<close>, in state \<open>w\<close>.
\<close>

definition checkpoint_of ::
  "int \<Rightarrow> history \<Rightarrow> pyfloat \<Rightarrow> ('m, 'o, 'r) world \<Rightarrow> (string \<times> ('m, 'o) pyval) list" where
  "checkpoint_of e loss best_loss w =
    [(''epoch'', PyInt e), (''model_state_dict'', StateDictM (model w)),
     (''optimizer_state_dict'', StateDictO (optim w)), (''loss'', PyDict loss),
     (''best_loss'', PyFloat best_loss)]"

text \<open>
  The five folds of a dataset of five examples under \<open>stub_numpy\<close>, each feed being the
  list of its indices.
\<close>

definition stub_dloader :: "(string \<times> nat list) list list" where
  "stub_dloader =
    map (\<lambda>f. [(''train'', fst f), (''val'', snd f)])
      [([0, 1, 2, 3], [4]), ([0, 1, 2, 4], [3]), ([0, 1, 3, 4], [2]), ([0, 2, 3, 4], [1]),
       ([1, 2, 3, 4], [0])]"

section \<open>Properties\<close>

subsection \<open>The mean loss of a pass\<close>

text \<open>
  C1. For each phase the specification has \<open>train_single_fold\<close> return the sum of
  \<open>loss * batch_size\<close> over the batches divided by the number of examples of the feed:
  2.6 for two batches of sizes 4 and 6 with losses 2 and 3. The function divides by
  \<open>len(feed)\<close> instead, which for a \<open>DataLoader\<close> is the number of batches: on that
  feed it returns 26 / 2 = 13 for both phases.
\<close>

theorem train_single_fold_mean_example:
  "train_single_fold stub [(''train'', stub_feed), (''val'', stub_feed)] (0, 0)
     = ((2, 2), Inr [13, 13])"
  by (simp add: train_single_fold_def run_phase_def stub_def stub_feed_def DataLoader_def Let_def)

subsection \<open>The validation pass and the optimizer\<close>

lemma run_batches_val_optim:
  "snd (fst (run_batches c False bs s acc)) = snd s"
  by (induction bs arbitrary: s acc) (simp_all add: Let_def)

lemma run_batches_val_no_step:
  "run_batches (c\<lparr>opt_step := f\<rparr>) False bs s acc = run_batches c False bs s acc"
  by (induction bs arbitrary: s acc) (simp_all add: Let_def)

text \<open>
  C3. The validation phase of \<open>train_single_fold\<close> leaves the optimizer state as it
  found it, whatever the feed and the collaborators, also when the phase raises; and
  \<open>optimizer.step\<close> is not called in it: replacing the step by any other function changes
  nothing of what the phase does.
\<close>

theorem val_phase_keeps_optimizer_state:
  "snd (fst (run_phase c dloader ''val'' s)) = snd s \<and>
   run_phase (c\<lparr>opt_step := f\<rparr>) dloader ''val'' s = run_phase c dloader ''val'' s"
proof
  show "snd (fst (run_phase c dloader ''val'' s)) = snd s"
  proof (cases "map_of dloader ''val''")
    case None
    then show ?thesis by (simp add: run_phase_def)
  next
    case (Some f)
    obtain s1 res where r: "run_batches c False (batches f) (model_eval c (fst s), snd s) 0 = (s1, res)"
      by (cases "run_batches c False (batches f) (model_eval c (fst s), snd s) 0")
    with run_batches_val_optim [of c "batches f" "(model_eval c (fst s), snd s)" 0]
    have "snd s1 = snd s" by simp
    with Some r show ?thesis by (cases res) (simp_all add: run_phase_def)
  qed
next
  show "run_phase (c\<lparr>opt_step := f\<rparr>) dloader ''val'' s = run_phase c dloader ''val'' s"
    by (cases "map_of dloader ''val''")
       (simp_all add: run_phase_def Let_def run_batches_val_no_step)
qed

text \<open>The validation phase is the second half of \<open>train_single_fold\<close>.\<close>

lemma train_single_fold_phases:
  "train_single_fold c dloader s =
    (case run_phase c dloader ''train'' s of
       (s1, Inl err) \<Rightarrow> (s1, Inl err)
     | (s1, Inr l_train) \<Rightarrow>
         (case run_phase c dloader ''val'' s1 of
            (s2, Inl err) \<Rightarrow> (s2, Inl err)
          | (s2, Inr l_val) \<Rightarrow> (s2, Inr [l_train, l_val])))"
  by (simp add: train_single_fold_def split: prod.splits sum.splits)

subsection \<open>The checkpoint record\<close>

lemma save_checkpoints_body_files:
  "save_checkpoints_body a w = (w', res) \<Longrightarrow>
     files w' = files w \<or>
     (\<exists>p. files w' = AList.update p
        [(''epoch'', a ''e''), (''model_state_dict'', StateDictM (model w)),
         (''optimizer_state_dict'', StateDictO (optim w)), (''loss'', a ''loss''),
         (''best_loss'', a ''best_loss'')] (files w))"
  unfolding save_checkpoints_body_def Let_def
  by (auto split: option.splits if_splits)

lemmas save_checkpoints_eval =
  save_checkpoints_def bind_args_def save_checkpoints_params_def save_checkpoints_body_def
  path_join_def Let_def

text \<open>
  C2, as the specification has it, fails: the record written for the call below has no
  field \<open>model_state\<close> or \<open>optimizer_state\<close>.
\<close>

theorem save_checkpoints_field_names_counterexample:
  "''model_state'' \<notin> set (map fst (the (map_of
      (files (fst (save_checkpoints [] stub_kwargs stub_world))) ''./Net_latest.ckpt''))) \<and>
   ''optimizer_state'' \<notin> set (map fst (the (map_of
      (files (fst (save_checkpoints [] stub_kwargs stub_world))) ''./Net_latest.ckpt''))) \<and>
   map fst (the (map_of
      (files (fst (save_checkpoints [] stub_kwargs stub_world))) ''./Net_latest.ckpt''))
     = [''epoch'', ''model_state_dict'', ''optimizer_state_dict'', ''loss'', ''best_loss'']"
  by (simp add: save_checkpoints_eval stub_kwargs_def stub_world_def initial_world_def)

text \<open>
  C2, amended. A call of \<open>save_checkpoints\<close> either leaves the files as they are or
  writes one record, whose five fields are, in this order, \<open>epoch\<close>,
  \<open>model_state_dict\<close>, \<open>optimizer_state_dict\<close>, \<open>loss\<close> and \<open>best_loss\<close>.
\<close>

theorem save_checkpoints_field_names:
  "save_checkpoints pos kw w = (w', res) \<Longrightarrow>
     files w' = files w \<or>
     (\<exists>p r. files w' = AList.update p r (files w) \<and>
        map fst r = [''epoch'', ''model_state_dict'', ''optimizer_state_dict'', ''loss'',
                     ''best_loss''])"
proof -
  assume a: "save_checkpoints pos kw w = (w', res)"
  show ?thesis
  proof (cases "bind_args save_checkpoints_params [(''suffix'', PyStr ''latest'')] pos kw")
    case (Inl err)
    with a show ?thesis by (simp add: save_checkpoints_def)
  next
    case (Inr args)
    with a have "save_checkpoints_body (\<lambda>p. the (map_of args p)) w = (w', res)"
      by (simp add: save_checkpoints_def)
    from save_checkpoints_body_files [OF this] show ?thesis
      by (elim disjE exE) (simp, rule disjI2, rule exI, rule exI, erule conjI, simp)
  qed
qed

theorem save_checkpoints_field_names_witness:
  "\<exists>p r. files (fst (save_checkpoints [] stub_kwargs stub_world)) = AList.update p r [] \<and>
     map fst r = [''epoch'', ''model_state_dict'', ''optimizer_state_dict'', ''loss'',
                  ''best_loss'']"
proof -
  obtain w' res where r: "save_checkpoints [] stub_kwargs stub_world = (w', res)"
    by (cases "save_checkpoints [] stub_kwargs stub_world")
  have ne: "files w' \<noteq> files stub_world"
    using r by (auto simp add: save_checkpoints_eval stub_kwargs_def stub_world_def initial_world_def)
  have e: "files stub_world = []" by (simp add: stub_world_def initial_world_def)
  from save_checkpoints_field_names [OF r] ne show ?thesis
    by (simp add: r e)
qed

subsection \<open>The checkpoints of \<open>train_model\<close>\<close>

text \<open>
  A call that passes three or more positional arguments and \<open>logger\<close> as a keyword gives
  \<open>logger\<close>, the third parameter, two values: Python raises \<open>TypeError\<close> before the body
  runs. Both calls of \<open>save_checkpoints\<close> in \<open>train_model\<close> are of this shape.
\<close>

lemma save_checkpoints_positional_logger:
  "3 \<le> length pos \<Longrightarrow> ''logger'' \<in> set (map fst kw)
    \<Longrightarrow> save_checkpoints pos kw w = (w, Inl TypeError)"
proof -
  assume a: "3 \<le> length pos" and b: "''logger'' \<in> set (map fst kw)"
  from a obtain x y z r where p: "pos = x # y # z # r"
    by (metis Suc_le_length_iff numeral_3_eq_3)
  have "list_ex (\<lambda>k. k \<in> set (map fst (zip save_checkpoints_params pos))) (map fst kw)"
    using b unfolding list_ex_iff p save_checkpoints_params_def
    by (intro bexI [of _ "''logger''"]) simp_all
  then show ?thesis
    by (simp add: save_checkpoints_def bind_args_def Let_def)
qed

lemma train_model_checkpoints_raises:
  "\<exists>st1 err. train_model_checkpoints root_path model_name e st = (st1, Inl err)
      \<and> files (fst st1) = files (fst st) \<and> fst (snd st1) = fst (snd st)"
proof (cases st)
  case (fields w loss best)
  show ?thesis
    unfolding train_model_checkpoints_def Let_def fields
    by (cases "last_item ''val'' loss")
       (simp_all add: save_checkpoints_positional_logger)
qed

lemma train_model_epoch_raises:
  "\<exists>st1 err. train_model_epoch c dloader root_path model_name e st = (st1, Inl err)
      \<and> files (fst st1) = files (fst st)"
proof (cases "train_single_fold c dloader (model (fst st), optim (fst st))")
  case (Pair s1 res)
  show ?thesis
  proof (cases res)
    case (Inl err)
    with Pair show ?thesis by (simp add: train_model_epoch_def Let_def)
  next
    case (Inr floss)
    note r = this
    show ?thesis
    proof (cases "append_item ''train'' floss 0 (fst (snd st))")
      case (Inl err)
      with Pair r show ?thesis by (simp add: train_model_epoch_def Let_def)
    next
      case (Inr loss1)
      note l1 = this
      show ?thesis
      proof (cases "append_item ''val'' floss 1 loss1")
        case (Inl err)
        with Pair r l1 show ?thesis by (simp add: train_model_epoch_def Let_def)
      next
        case (Inr loss2)
        obtain st1 err where
          "train_model_checkpoints root_path model_name e
             (fst st\<lparr>model := fst s1, optim := snd s1\<rparr>, loss2, snd (snd st)) = (st1, Inl err)"
          "files (fst st1) = files (fst st)"
          using train_model_checkpoints_raises
            [of root_path model_name e
                "(fst st\<lparr>model := fst s1, optim := snd s1\<rparr>, loss2, snd (snd st))"]
          by auto
        with Pair r l1 Inr show ?thesis by (simp add: train_model_epoch_def Let_def)
      qed
    qed
  qed
qed

lemma for_epochs_files:
  assumes "\<And>e st. files (fst (fst (body e st))) = files (fst st)"
  shows "files (fst (fst (for_epochs body es st))) = files (fst st)"
proof (induction es arbitrary: st)
  case Nil
  show ?case by simp
next
  case (Cons e es)
  obtain st1 res where b: "body e st = (st1, res)" by (cases "body e st")
  with assms [of e st] have f: "files (fst st1) = files (fst st)" by simp
  show ?case using b f Cons.IH [of st1] by (cases res) simp_all
qed

lemma train_model_loop_files:
  "files (fst (fst (for_epochs (train_model_epoch c dloader root_path name) es st)))
     = files (fst st)"
proof (rule for_epochs_files)
  fix e st'
  show "files (fst (fst (train_model_epoch c dloader root_path name e st'))) = files (fst st')"
    using train_model_epoch_raises [of c dloader root_path name e st'] by auto
qed

lemma py_range_first: "0 < n \<Longrightarrow> py_range a (a + n) = a # py_range (a + 1) (a + n)"
  by (simp add: py_range_def upto_rec1)

text \<open>
  \<open>train_model\<close> never returns normally from a run of one epoch or more: what does not
  fail before reaches a call of \<open>save_checkpoints\<close>, which raises.
\<close>

lemma train_model_raises:
  "0 < epoches \<Longrightarrow>
    \<exists>err. snd (snd (train_model c class_name dloader root_path model_name epoches start_epoch
                       loss best_val_loss w)) = Inl err"
proof -
  assume "0 < epoches"
  then have r: "py_range start_epoch (start_epoch + epoches)
                  = start_epoch # py_range (start_epoch + 1) (start_epoch + epoches)"
    by (rule py_range_first)
  have "\<exists>err. snd (for_epochs (train_model_epoch c dloader root_path name) (e # es) st) = Inl err"
    for name e es st
    using train_model_epoch_raises [of c dloader root_path name e st] by auto
  then show ?thesis
    by (simp add: train_model_def Let_def r)
qed

lemmas train_model_eval =
  train_model_def train_model_epoch_def train_single_fold_def run_phase_def stub_def
  unit_feed_def DataLoader_def Let_def py_range_def append_item_def py_index_def
  train_model_checkpoints_def last_item_def save_checkpoints_positional_logger
  initial_world_def stub_world_def upto_rec1

text \<open>
  C5. The specification has \<open>train_model\<close> write a "best" checkpoint when the epoch's
  validation loss is below the best one: with best loss 1.0 and a validation loss of
  0.99, a checkpoint with \<open>best_loss\<close> 0.99. On that input the call of \<open>save_checkpoints\<close>
  raises \<open>TypeError\<close>: the epoch's losses are appended, no file is written, and
  \<open>train_model\<close> ends with the exception.
\<close>

theorem train_model_best_checkpoint_example:
  "train_model stub ''Net'' [(''train'', unit_feed 0.5), (''val'', unit_feed 0.99)] ''.'' None
      1 0 (Some [(''train'', []), (''val'', [])]) (Finite 1) stub_world
    = (stub_world\<lparr>model := 1, optim := 1\<rparr>,
       [(''train'', [0.5]), (''val'', [0.99])], Inl TypeError) \<and>
   files (stub_world\<lparr>model := 1, optim := 1\<rparr>) = []"
  by (simp add: train_model_eval)

text \<open>
  C6. The specification has two runs of \<open>E\<close> epochs, the second resumed at \<open>S + E\<close>, end
  with the history of one run of \<open>2E\<close> epochs. For \<open>E = 1\<close> and \<open>S = 0\<close>: the run of two
  epochs raises \<open>TypeError\<close> in epoch 0 and leaves one entry per phase; each of the two
  runs of one epoch raises too, and a caller that goes on after the first exception ends
  with two entries per phase.
\<close>

theorem train_model_resume_example:
  "train_model stub ''Net'' [(''train'', unit_feed 0.5), (''val'', unit_feed 0.99)] ''.'' None
      2 0 (Some [(''train'', []), (''val'', [])]) PosInf stub_world
    = (stub_world\<lparr>model := 1, optim := 1\<rparr>,
       [(''train'', [0.5]), (''val'', [0.99])], Inl TypeError) \<and>
   train_model stub ''Net'' [(''train'', unit_feed 0.5), (''val'', unit_feed 0.99)] ''.'' None
      1 0 (Some [(''train'', []), (''val'', [])]) PosInf stub_world
    = (stub_world\<lparr>model := 1, optim := 1\<rparr>,
       [(''train'', [0.5]), (''val'', [0.99])], Inl TypeError) \<and>
   train_model stub ''Net'' [(''train'', unit_feed 0.5), (''val'', unit_feed 0.99)] ''.'' None
      1 1 (Some [(''train'', [0.5]), (''val'', [0.99])]) (Finite 0.99)
      (stub_world\<lparr>model := 1, optim := 1\<rparr>)
    = (stub_world\<lparr>model := 2, optim := 2\<rparr>,
       [(''train'', [0.5, 0.5]), (''val'', [0.99, 0.99])], Inl TypeError)"
  by (simp add: train_model_eval)

text \<open>
  C9. The specification has \<open>train_model\<close> write a "latest" checkpoint at the end of
  every epoch. It writes none: whatever the arguments and however many epochs it is
  asked to run, the files after \<open>train_model\<close> are the files before it.
\<close>

theorem train_model_writes_no_checkpoint:
  "files (fst (train_model c class_name dloader root_path model_name epoches start_epoch loss
                 best_val_loss w)) = files w"
  by (simp add: train_model_def Let_def train_model_loop_files split: option.splits)

subsection \<open>The checkpoints of \<open>cross_validate\<close>\<close>

text \<open>
  \<open>cross_validate\<close> passes every argument of \<open>save_checkpoints\<close> by keyword, and the calls
  succeed.
\<close>

lemma path_join_suffix_distinct:
  "path_join root_path (prefix @ ''_best.ckpt'') \<noteq> path_join root_path (prefix @ ''_latest.ckpt'')"
  by (cases prefix) (auto simp: path_join_def)

lemma save_checkpoints_best_by_keyword:
  "save_checkpoints []
     [(''training_model'', PyModel), (''optimizer'', PyOptim), (''model_name'', PyStr prefix),
      (''root_path'', PyStr root_path), (''loss'', PyDict loss), (''e'', PyInt e),
      (''suffix'', PyStr ''best''), (''best_loss'', PyFloat b), (''logger'', PyLogger)] w
   = (w\<lparr>files := AList.update (path_join root_path (prefix @ ''_best.ckpt''))
                    (checkpoint_of e loss b w) (files w)\<rparr>, Inr ())"
  by (simp add: save_checkpoints_def bind_args_def save_checkpoints_params_def
        save_checkpoints_body_def Let_def checkpoint_of_def)

lemma save_checkpoints_latest_by_keyword:
  "save_checkpoints []
     [(''training_model'', PyModel), (''optimizer'', PyOptim), (''model_name'', PyStr prefix),
      (''root_path'', PyStr root_path), (''e'', PyInt e), (''loss'', PyDict loss),
      (''best_loss'', PyFloat b), (''logger'', PyLogger)] w
   = (w\<lparr>files := AList.update (path_join root_path (prefix @ ''_latest.ckpt''))
                    (checkpoint_of e loss b w) (files w)\<rparr>, Inr ())"
  by (simp add: save_checkpoints_def bind_args_def save_checkpoints_params_def
        save_checkpoints_body_def Let_def checkpoint_of_def)

lemma cross_validate_checkpoints_result:
  "cross_validate_checkpoints root_path prefix e m (w, loss, best) =
    (if less_best m best then
       ((w\<lparr>files := AList.update (path_join root_path (prefix @ ''_latest.ckpt''))
                       (checkpoint_of e loss (Finite m) w)
                       (AList.update (path_join root_path (prefix @ ''_best.ckpt''))
                          (checkpoint_of e loss (Finite m) w) (files w))\<rparr>,
         loss, Finite m), Inr ())
     else
       ((w\<lparr>files := AList.update (path_join root_path (prefix @ ''_latest.ckpt''))
                       (checkpoint_of e loss best w) (files w)\<rparr>,
         loss, best), Inr ()))"
  by (simp add: cross_validate_checkpoints_def Let_def save_checkpoints_best_by_keyword
        save_checkpoints_latest_by_keyword checkpoint_of_def)

text \<open>
  In \<open>cross_validate\<close> the "best" file is rewritten exactly when the epoch's mean is
  strictly below the best loss, with that mean as its \<open>best_loss\<close>, and the "latest"
  file is rewritten at every epoch with the epoch and the best loss of that moment.
\<close>

lemma cross_validate_best_checkpoint_iff:
  "map_of (files (fst (fst (cross_validate_checkpoints root_path prefix e m (w, loss, best)))))
      (path_join root_path (prefix @ ''_best.ckpt''))
    = (if less_best m best then Some (checkpoint_of e loss (Finite m) w)
       else map_of (files w) (path_join root_path (prefix @ ''_best.ckpt'')))"
  using path_join_suffix_distinct [of root_path prefix]
  by (simp add: cross_validate_checkpoints_result update_conv')

lemma cross_validate_latest_checkpoint:
  "\<exists>w' b. cross_validate_checkpoints root_path prefix e m (w, loss, best)
            = ((w', loss, b), Inr ()) \<and>
     map_of (files w') (path_join root_path (prefix @ ''_latest.ckpt''))
       = Some (checkpoint_of e loss b w)"
  by (simp add: cross_validate_checkpoints_result update_conv')

lemma cross_validate_checkpoints_loss:
  "fst (snd (fst (cross_validate_checkpoints root_path prefix e m st))) = fst (snd st)"
  by (cases st) (simp add: cross_validate_checkpoints_result)

subsection \<open>The mean and the deviation of the fold losses\<close>

lemma np_mean_arithmetic_mean: "np_mean xs = arithmetic_mean xs"
  by (simp add: np_mean_def arithmetic_mean_def)

lemma np_std_population_std: "np_std xs = population_std xs"
  by (simp add: np_std_def population_std_def np_mean_arithmetic_mean)
     (simp add: arithmetic_mean_def)

lemma run_folds_length:
  "run_folds single_fold_func ds s acc = (s1, Inr fold_loss) \<Longrightarrow>
     length fold_loss = length acc + length ds"
proof (induction ds arbitrary: s acc)
  case Nil
  then show ?case by simp
next
  case (Cons d ds)
  then show ?case
    by (auto split: prod.splits sum.splits)
qed

text \<open>
  C8. When the folds of an epoch of \<open>cross_validate\<close> all return, with \<open>fold_loss\<close> the
  list of their last outputs (the validation loss, for \<open>train_single_fold\<close>), there is one
  loss per fold, the value appended to \<open>loss["mean"]\<close> is their arithmetic mean and the
  value appended to \<open>loss["std"]\<close> is their population standard deviation.
\<close>

theorem cross_validate_epoch_mean_std:
  assumes r: "run_folds single_fold_func dloader (model w, optim w) [] = (s1, Inr fold_loss)"
    and m: "map_of loss ''mean'' = Some ms"
    and s: "map_of loss ''std'' = Some ss"
  shows "length fold_loss = length dloader \<and>
    map_of (fst (snd (fst (cross_validate_epoch single_fold_func dloader root_path prefix e
                             (w, loss, best_loss))))) ''mean''
      = Some (ms @ [arithmetic_mean fold_loss]) \<and>
    map_of (fst (snd (fst (cross_validate_epoch single_fold_func dloader root_path prefix e
                             (w, loss, best_loss))))) ''std''
      = Some (ss @ [population_std fold_loss])"
proof -
  have l: "length fold_loss = length dloader"
    using run_folds_length [OF r] by simp
  have 1: "dict_append ''mean'' (np_mean fold_loss) loss
             = Inr (AList.update ''mean'' (ms @ [np_mean fold_loss]) loss)"
    by (simp add: dict_append_def m)
  have 2: "dict_append ''std'' (np_std fold_loss)
               (AList.update ''mean'' (ms @ [np_mean fold_loss]) loss)
             = Inr (AList.update ''std'' (ss @ [np_std fold_loss])
                     (AList.update ''mean'' (ms @ [np_mean fold_loss]) loss))"
    by (simp add: dict_append_def s update_conv')
  have "fst (snd (fst (cross_validate_epoch single_fold_func dloader root_path prefix e
                             (w, loss, best_loss))))
        = AList.update ''std'' (ss @ [np_std fold_loss])
                     (AList.update ''mean'' (ms @ [np_mean fold_loss]) loss)"
    by (simp add: cross_validate_epoch_def r 1 2 Let_def cross_validate_checkpoints_loss)
  with l show ?thesis
    by (simp add: update_conv' np_mean_arithmetic_mean np_std_population_std)
qed

theorem cross_validate_epoch_mean_std_witness:
  "map_of (fst (snd (fst (cross_validate_epoch stub_fold_func stub_dloader ''.'' ''Net'' 0
       (stub_world, [(''mean'', []), (''std'', [])], PosInf))))) ''mean'' = Some [3] \<and>
   map_of (fst (snd (fst (cross_validate_epoch stub_fold_func stub_dloader ''.'' ''Net'' 0
       (stub_world, [(''mean'', []), (''std'', [])], PosInf))))) ''std'' = Some [sqrt 2]"
proof -
  have r: "run_folds stub_fold_func stub_dloader (model stub_world, optim stub_world) []
             = ((5, 5), Inr [1, 2, 3, 4, 5])"
    by (simp add: stub_dloader_def stub_fold_func_def py_index_def stub_world_def
          initial_world_def)
  have m: "arithmetic_mean [1, 2, 3, 4, 5] = 3"
    by (simp add: arithmetic_mean_def)
  have s: "population_std [1, 2, 3, 4, 5] = sqrt 2"
    by (simp add: population_std_def m)
  from cross_validate_epoch_mean_std
         [OF r, of "[(''mean'', []), (''std'', [])]" "[]" "[]" "''.''" "''Net''" 0 PosInf]
  show ?thesis by (simp add: m s)
qed

subsection \<open>The folds\<close>

lemma sum_list_sizes_aux:
  "sum_list (map (\<lambda>i. a + (if i < r then 1 else 0)) [0..<k]) = k * a + min r k"
  by (induction k) auto

lemma sum_list_fold_sizes: "0 < n_splits \<Longrightarrow> sum_list (fold_sizes n n_splits) = n"
proof -
  assume k: "0 < n_splits"
  then have "min (n mod n_splits) n_splits = n mod n_splits" by simp
  then show ?thesis
    by (simp add: fold_sizes_def sum_list_sizes_aux)
qed

lemma length_fold_sizes: "length (fold_sizes n n_splits) = n_splits"
  by (simp add: fold_sizes_def)

lemma concat_test_chunks: "concat (test_chunks sizes xs) = take (sum_list sizes) xs"
  by (induction sizes arbitrary: xs) (simp_all add: take_add)

lemma length_test_chunks: "length (test_chunks sizes xs) = length sizes"
  by (induction sizes arbitrary: xs) simp_all

lemma validation_sets:
  "distinct (concat tests) \<Longrightarrow> set (concat tests) \<subseteq> {0..<n} \<Longrightarrow>
     distinct (concat (map (\<lambda>t. filter (\<lambda>i. i \<in> set t) [0..<n]) tests)) \<and>
     set (concat (map (\<lambda>t. filter (\<lambda>i. i \<in> set t) [0..<n]) tests)) = set (concat tests)"
  by (induction tests) auto

lemma distinct_concat_disjoint:
  "distinct (concat xss) \<Longrightarrow> i < length xss \<Longrightarrow> j < length xss \<Longrightarrow> i \<noteq> j
    \<Longrightarrow> set (xss ! i) \<inter> set (xss ! j) = {}"
proof (induction xss arbitrary: i j)
  case Nil
  then show ?case by simp
next
  case (Cons xs xss)
  show ?case
  proof (cases i)
    case 0
    with Cons.prems obtain j' where j: "j = Suc j'" "j' < length xss" by (cases j) auto
    then have "xss ! j' \<in> set xss" by simp
    then have "set (xss ! j') \<subseteq> set (concat xss)" by auto
    with Cons.prems(1) 0 j show ?thesis by auto
  next
    case (Suc i')
    note i = this
    show ?thesis
    proof (cases j)
      case 0
      from i Cons.prems have "xss ! i' \<in> set xss" by simp
      then have "set (xss ! i') \<subseteq> set (concat xss)" by auto
      with Cons.prems(1) 0 i show ?thesis by auto
    next
      case (Suc j')
      with i Cons.prems Cons.IH [of i' j'] show ?thesis by simp
    qed
  qed
qed

lemma KFold_split_folds:
  assumes "KFold_split np random_state n_splits n g = (g', Inr folds)"
  shows "\<exists>perm. perm = fst (rs_shuffle np
                    (case random_state of None \<Rightarrow> g | Some seed \<Rightarrow> RandomState np seed)
                    [0..<n]) \<and>
     1 < n_splits \<and> n_splits \<le> n \<and>
     folds = map (\<lambda>t. (filter (\<lambda>i. i \<notin> set t) [0..<n], filter (\<lambda>i. i \<in> set t) [0..<n]))
               (test_chunks (fold_sizes n n_splits) perm)"
  using assms
  by (cases random_state) (auto simp: KFold_split_def Let_def split: if_splits)

text \<open>With at least two folds and at least as many examples, the split returns folds.\<close>

lemma cross_validate_split_defined:
  "1 < n_splits \<Longrightarrow> n_splits \<le> dataset_len \<Longrightarrow>
     \<exists>folds. snd (cross_validate_split np n_splits dataset_len w) = Inr folds"
  by (simp add: cross_validate_split_def KFold_split_def Let_def)

text \<open>
  C10. Whenever the split of \<open>cross_validate\<close> returns folds (the shuffle being a
  permutation), there are \<open>n_splits\<close> of them, every index of the dataset is in the
  validation set of exactly one fold (the validation sets, put end to end, are a
  permutation of \<open>0..<dataset_len\<close>), the validation sets of two different folds are
  disjoint, and the training set of a fold is the complement of its validation set.
\<close>

theorem kfold_validation_sets_partition:
  assumes p: "permutes np"
    and s: "cross_validate_split np n_splits dataset_len w = (w', Inr folds)"
  shows "length folds = n_splits \<and>
         mset (concat (map snd folds)) = mset [0..<dataset_len] \<and>
         (\<forall>i<length folds. \<forall>j<length folds. i \<noteq> j \<longrightarrow>
            set (snd (folds ! i)) \<inter> set (snd (folds ! j)) = {}) \<and>
         (\<forall>f\<in>set folds. set (fst f) \<inter> set (snd f) = {} \<and>
            set (fst f) \<union> set (snd f) = {0..<dataset_len})"
proof -
  define perm where "perm = fst (rs_shuffle np (RandomState np 42) [0..<dataset_len])"
  define tests where "tests = test_chunks (fold_sizes dataset_len n_splits) perm"
  from s obtain g' where
    "KFold_split np (Some 42) n_splits dataset_len (np_random w) = (g', Inr folds)"
    by (auto simp: cross_validate_split_def split: prod.splits)
  from KFold_split_folds [OF this]
  have k: "1 < n_splits" "n_splits \<le> dataset_len"
    and f: "folds = map (\<lambda>t. (filter (\<lambda>i. i \<notin> set t) [0..<dataset_len],
                               filter (\<lambda>i. i \<in> set t) [0..<dataset_len])) tests"
    by (simp_all add: perm_def tests_def)
  from p have m: "mset perm = mset [0..<dataset_len]"
    by (simp add: permutes_def perm_def)
  then have d: "distinct perm" and st: "set perm = {0..<dataset_len}"
    using mset_eq_imp_distinct_iff [OF m] mset_eq_setD [OF m] by simp_all
  have len: "length perm = dataset_len"
    using mset_eq_length [OF m] by simp
  have c: "concat tests = perm"
    using k by (simp add: tests_def concat_test_chunks sum_list_fold_sizes len)
  have v: "map snd folds = map (\<lambda>t. filter (\<lambda>i. i \<in> set t) [0..<dataset_len]) tests"
    by (simp add: f comp_def)
  from validation_sets [of tests dataset_len] c d st
  have dv: "distinct (concat (map snd folds))"
    and sv: "set (concat (map snd folds)) = {0..<dataset_len}"
    by (simp_all add: v)
  have 1: "length folds = n_splits"
    by (simp add: f tests_def length_test_chunks length_fold_sizes)
  have 2: "mset (concat (map snd folds)) = mset [0..<dataset_len]"
  proof -
    have "set (concat (map snd folds)) = set [0..<dataset_len]" using sv by simp
    with dv show ?thesis
      using set_eq_iff_mset_eq_distinct [of "concat (map snd folds)" "[0..<dataset_len]"]
      by (simp del: mset_upt)
  qed
  have 3: "\<forall>i<length folds. \<forall>j<length folds. i \<noteq> j \<longrightarrow>
            set (snd (folds ! i)) \<inter> set (snd (folds ! j)) = {}"
  proof (intro allI impI)
    fix i j assume "i < length folds" "j < length folds" "i \<noteq> j"
    with distinct_concat_disjoint [OF dv, of i j]
    show "set (snd (folds ! i)) \<inter> set (snd (folds ! j)) = {}"
      by simp
  qed
  have 4: "\<forall>f\<in>set folds. set (fst f) \<inter> set (snd f) = {} \<and>
            set (fst f) \<union> set (snd f) = {0..<dataset_len}"
    by (auto simp: f)
  from 1 2 3 4 show ?thesis by blast
qed

lemma permutes_stub: "permutes stub_numpy"
  by (simp add: permutes_def stub_numpy_def)

lemma fold_sizes_5_2: "fold_sizes 5 2 = [3, 2]"
  by (simp add: fold_sizes_def upt_rec)

lemma split_5_2:
  "cross_validate_split stub_numpy 2 5 stub_world =
    (stub_world, Inr [([0, 1], [2, 3, 4]), ([2, 3, 4], [0, 1])])"
  by (simp add: cross_validate_split_def KFold_split_def stub_numpy_def stub_world_def
        initial_world_def Let_def fold_sizes_5_2 upt_rec)

theorem kfold_validation_sets_partition_witness:
  "permutes stub_numpy \<and>
   cross_validate_split stub_numpy 2 5 stub_world
     = (stub_world, Inr [([0, 1], [2, 3, 4]), ([2, 3, 4], [0, 1])]) \<and>
   length [([0, 1], [2, 3, 4]), ([2, 3, 4], [0::nat, 1])] = (2::nat) \<and>
   mset (concat (map snd [([0, 1], [2, 3, 4]), ([2, 3, 4], [0::nat, 1])])) = mset [0..<5]"
  using kfold_validation_sets_partition [OF permutes_stub split_5_2] permutes_stub split_5_2
  by simp

text \<open>
  C7. The folds \<open>cross_validate\<close> computes for a dataset of \<open>dataset_len\<close> examples and
  \<open>n_splits\<close> folds are the same in any two states of the program (the same folds, or
  the same \<open>ValueError\<close>): the shuffle starts from a generator seeded with 42 at every
  split, and the split leaves NumPy's global generator as it was.
\<close>

theorem cross_validate_split_deterministic:
  "snd (cross_validate_split np n_splits dataset_len w1)
     = snd (cross_validate_split np n_splits dataset_len w2) \<and>
   np_random (fst (cross_validate_split np n_splits dataset_len w1)) = np_random w1"
  by (simp add: cross_validate_split_def KFold_split_def Let_def)

subsection \<open>The default history\<close>

lemma fold_sizes_5_5: "fold_sizes 5 5 = [1, 1, 1, 1, 1]"
  by (simp add: fold_sizes_def upt_rec)

lemma split_5_5:
  "cross_validate_split stub_numpy 5 5 w =
    (w, Inr [([0, 1, 2, 3], [4]), ([0, 1, 2, 4], [3]), ([0, 1, 3, 4], [2]),
             ([0, 2, 3, 4], [1]), ([1, 2, 3, 4], [0])])"
  by (simp add: cross_validate_split_def KFold_split_def stub_numpy_def Let_def
        fold_sizes_5_5 upt_rec)

lemmas cross_validate_eval =
  cross_validate_def cross_validate_epoch_def split_5_5 stub_fold_func_def py_index_def
  np_mean_def np_std_def dict_append_def cross_validate_checkpoints_def save_checkpoints_eval
  py_range_def stub_world_def initial_world_def

text \<open>
  C4. The specification has every call without a \<open>loss\<close> argument start from an empty
  history. The dictionary that is the default of \<open>loss\<close> is made once and changed in
  place: after a first call of \<open>cross_validate\<close> for one epoch it holds that epoch's mean
  and deviation, a second call without \<open>loss\<close> starts from them and ends with two
  entries per key after one epoch; likewise the default of \<open>train_model\<close> holds the
  losses of the first call.
\<close>

theorem default_history_shared_example:
  "cross_validate_loss (fst (cross_validate stub_numpy stub_fold_func (\<lambda>idx. idx) ''Net'' 5 5
       1 0 ''.'' None None PosInf stub_world))
     = [(''mean'', [3]), (''std'', [sqrt 2])] \<and>
   fst (snd (cross_validate stub_numpy stub_fold_func (\<lambda>idx. idx) ''Net'' 5 5
       1 1 ''.'' None None (Finite 3)
       (fst (cross_validate stub_numpy stub_fold_func (\<lambda>idx. idx) ''Net'' 5 5
          1 0 ''.'' None None PosInf stub_world))))
     = [(''mean'', [3, 3]), (''std'', [sqrt 2, sqrt 2])] \<and>
   train_model_loss (fst (train_model stub ''Net''
       [(''train'', unit_feed 0.5), (''val'', unit_feed 0.99)] ''.'' None 1 0 None PosInf
       stub_world))
     = [(''train'', [0.5]), (''val'', [0.99])]"
proof (intro conjI)
  show "cross_validate_loss (fst (cross_validate stub_numpy stub_fold_func (\<lambda>idx. idx) ''Net''
       5 5 1 0 ''.'' None None PosInf stub_world))
     = [(''mean'', [3]), (''std'', [sqrt 2])]"
    by (simp add: cross_validate_eval)
  show "fst (snd (cross_validate stub_numpy stub_fold_func (\<lambda>idx. idx) ''Net'' 5 5
       1 1 ''.'' None None (Finite 3)
       (fst (cross_validate stub_numpy stub_fold_func (\<lambda>idx. idx) ''Net'' 5 5
          1 0 ''.'' None None PosInf stub_world))))
     = [(''mean'', [3, 3]), (''std'', [sqrt 2, sqrt 2])]"
    by (simp add: cross_validate_eval)
  show "train_model_loss (fst (train_model stub ''Net''
       [(''train'', unit_feed 0.5), (''val'', unit_feed 0.99)] ''.'' None 1 0 None PosInf
       stub_world))
     = [(''train'', [0.5]), (''val'', [0.99])]"
    by (simp add: train_model_eval)
qed

end
